theory Spec2Isabelle
  imports Complex_Main
begin

section \<open>Python strings\<close>

text \<open>
  A Python \<open>str\<close> is modelled as a \<open>string\<close>. The program compares lower-cased text
  against ASCII constants only (the enum values and the discourse markers), so
  \<open>str.lower\<close> is modelled on the ASCII letters and leaves every other character as it
  is. (Outside ASCII, Python lower-cases only to non-ASCII characters, except U+212A to
  \<open>k\<close> and U+0130 to \<open>i\<close> followed by U+0307; no constant of the program contains
  \<open>k\<close>, and none has an \<open>i\<close> in last position, so neither case can make or break a
  match.)
\<close>

definition upper_letters :: string where
  "upper_letters = ''ABCDEFGHIJKLMNOPQRSTUVWXYZ''"

definition lower_letters :: string where
  "lower_letters = ''abcdefghijklmnopqrstuvwxyz''"

definition char_lower :: "char \<Rightarrow> char" where
  "char_lower c =
     (case map_of (zip upper_letters lower_letters) c of Some d \<Rightarrow> d | None \<Rightarrow> c)"

text \<open>\<^verbatim>\<open>s.lower()\<close>\<close>

definition lower :: "string \<Rightarrow> string" where
  "lower s = map char_lower s"

text \<open>\<^verbatim>\<open>sep.join(xs)\<close>\<close>

fun join :: "string \<Rightarrow> string list \<Rightarrow> string" where
  "join sep [] = []"
| "join sep [x] = x"
| "join sep (x # y # ys) = x @ sep @ join sep (y # ys)"

fun startswith :: "string \<Rightarrow> string \<Rightarrow> bool" where
  "startswith s [] = True"
| "startswith [] (p # ps) = False"
| "startswith (c # cs) (p # ps) = (c = p \<and> startswith cs ps)"

text \<open>\<^verbatim>\<open>m in s\<close> for two strings: \<open>m\<close> occurs in \<open>s\<close> as a contiguous substring.\<close>

fun contains :: "string \<Rightarrow> string \<Rightarrow> bool" where
  "contains [] m = (m = [])"
| "contains (c # cs) m = (startswith (c # cs) m \<or> contains cs m)"

text \<open>
  The characters Python's \<open>str.isspace\<close> accepts in ASCII: space, tab, line feed,
  vertical tab, form feed, carriage return.
\<close>

definition whitespace :: "char list" where
  "whitespace = [CHR '' '', CHR 0x09, CHR 0x0A, CHR 0x0B, CHR 0x0C, CHR 0x0D]"

text \<open>A text with its whitespace removed: what two texts share when they are equal
  modulo whitespace.\<close>

definition strip_ws :: "string \<Rightarrow> string" where
  "strip_ws s = filter (\<lambda>c. c \<notin> set whitespace) s"

section \<open>Exceptions\<close>

text \<open>
  Every raise of the source is a value. \<open>Exception\<close> stands for whatever the annotation
  provider raises; \<open>ProcessingError\<close> is the program's own class.
\<close>

datatype exn =
    ValueError string
  | TypeError string
  | AttributeError string
  | Exception string
  | ProcessingError string

text \<open>\<^verbatim>\<open>str(e)\<close>\<close>

fun str_exn :: "exn \<Rightarrow> string" where
  "str_exn (ValueError m) = m"
| "str_exn (TypeError m) = m"
| "str_exn (AttributeError m) = m"
| "str_exn (Exception m) = m"
| "str_exn (ProcessingError m) = m"

section \<open>Data model\<close>

text \<open>Python values, as far as the records and dictionaries of the program hold them.\<close>

datatype pyval =
    PNone
  | PInt int
  | PFloat real
  | PStr string
  | PList "pyval list"
  | PDict "(string \<times> pyval) list"

text \<open>The keys of a dictionary, in insertion order.\<close>

fun keys :: "pyval \<Rightarrow> string list" where
  "keys (PDict kvs) = map fst kvs"
| "keys _ = []"

subsection \<open>EmotionType\<close>

datatype EmotionType =
  HAPPY | SAD | NEUTRAL | ANGRY | SURPRISE | FEAR | DISGUST | CONFUSED | OTHER

text \<open>\<^verbatim>\<open>member.value\<close>\<close>

fun "value" :: "EmotionType \<Rightarrow> string" where
  "value HAPPY = ''happy''"
| "value SAD = ''sad''"
| "value NEUTRAL = ''neutral''"
| "value ANGRY = ''angry''"
| "value SURPRISE = ''surprise''"
| "value FEAR = ''fear''"
| "value DISGUST = ''disgust''"
| "value CONFUSED = ''confused''"
| "value OTHER = ''other''"

definition members :: "EmotionType list" where
  "members = [HAPPY, SAD, NEUTRAL, ANGRY, SURPRISE, FEAR, DISGUST, CONFUSED, OTHER]"

text \<open>
  \<^verbatim>\<open>cls(v)\<close>: the enum's lookup by value, the member whose value is \<open>v\<close>, and a
  \<open>ValueError\<close> when there is none.
\<close>

definition EmotionType_call :: "string \<Rightarrow> exn + EmotionType" where
  "EmotionType_call v =
     (case find (\<lambda>m. value m = v) members of
        Some m \<Rightarrow> Inr m
      | None \<Rightarrow> Inl (ValueError (v @ '' is not a valid EmotionType'')))"

text \<open>
  \<^verbatim>\<open>
  try:
      return cls(emotion.lower())
  except ValueError:
      return cls.OTHER
  \<close>
  Only \<open>ValueError\<close> is caught; any other exception would leave the method.
\<close>

definition from_string :: "string \<Rightarrow> exn + EmotionType" where
  "from_string emotion =
     (case EmotionType_call (lower emotion) of
        Inr m \<Rightarrow> Inr m
      | Inl (ValueError _) \<Rightarrow> Inr OTHER
      | Inl e \<Rightarrow> Inl e)"

subsection \<open>Entity\<close>

text \<open>
  \<^verbatim>\<open>
  @dataclass
  class Entity:
      name: str
      type: str
      attributes: Dict[str, str]
      position: Optional[Dict[str, float]] = None
      importanc: float = 1.0
  \<close>
  A dataclass does not check its annotations when an instance is built, so a field
  holds whatever Python value it is given.
\<close>

record Entity =
  name :: pyval
  type :: pyval
  attributes :: pyval
  position :: pyval
  importanc :: pyval

text \<open>The parameters of the \<open>__init__\<close> that \<open>@dataclass\<close> generates: the fields,
  in order.\<close>

definition Entity_fields :: "string list" where
  "Entity_fields = [''name'', ''type'', ''attributes'', ''position'', ''importanc'']"

text \<open>
  \<^verbatim>\<open>Entity(k1 = v1, ..., kn = vn)\<close>: a call of the generated \<open>__init__\<close> with keyword
  arguments. A keyword that is not a parameter is a \<open>TypeError\<close>, and so is a missing
  parameter without a default; \<open>position\<close> and \<open>importanc\<close> have defaults. (The
  wording of the messages is CPython's in outline; no property below depends on it.)
\<close>

definition Entity_init :: "(string \<times> pyval) list \<Rightarrow> exn + Entity" where
  "Entity_init kwargs =
     (case filter (\<lambda>k. k \<notin> set Entity_fields) (map fst kwargs) of
        k # _ \<Rightarrow>
          Inl (TypeError (''Entity.__init__() got an unexpected keyword argument ''
                          @ [CHR 0x27] @ k @ [CHR 0x27]))
      | [] \<Rightarrow>
          (case (map_of kwargs ''name'', map_of kwargs ''type'', map_of kwargs ''attributes'') of
             (Some n, Some t, Some a) \<Rightarrow>
               Inr \<lparr> name = n, type = t, attributes = a,
                     position = (case map_of kwargs ''position'' of
                                   Some p \<Rightarrow> p | None \<Rightarrow> PNone),
                     importanc = (case map_of kwargs ''importanc'' of
                                    Some w \<Rightarrow> w | None \<Rightarrow> PFloat 1.0) \<rparr>
           | _ \<Rightarrow> Inl (TypeError ''Entity.__init__() missing required arguments'')))"

text \<open>\<^verbatim>\<open>Entity.to_dict\<close> is \<open>asdict(self)\<close>: one key per field, named as the field is, in
  field order.\<close>

definition Entity_to_dict :: "Entity \<Rightarrow> pyval" where
  "Entity_to_dict e =
     PDict [(''name'', name e), (''type'', type e), (''attributes'', attributes e),
            (''position'', position e), (''importanc'', importanc e)]"

subsection \<open>Scene\<close>

text \<open>The fields \<open>id\<close> and \<open>text\<close> of the source are \<open>scene_id\<close> and \<open>scene_text\<close>
  here.\<close>

record Scene =
  scene_id :: int
  scene_text :: string
  entities :: "Entity list"
  mood :: EmotionType
  actions :: "string list"
  layout :: "(string \<times> pyval) list option"
  image_path :: "string option"

definition Scene_to_dict :: "Scene \<Rightarrow> pyval" where
  "Scene_to_dict s =
     PDict [(''id'', PInt (scene_id s)),
            (''text'', PStr (scene_text s)),
            (''entities'', PList (map Entity_to_dict (entities s))),
            (''mood'', PStr (value (mood s))),
            (''actions'', PList (map PStr (actions s))),
            (''layout'', (case layout s of None \<Rightarrow> PNone | Some d \<Rightarrow> PDict d)),
            (''image_path'', (case image_path s of None \<Rightarrow> PNone | Some p \<Rightarrow> PStr p))]"

section \<open>The annotation provider\<close>

text \<open>
  What the program reads of a spaCy document. A token is identified by its index
  \<open>tok_i\<close> in the document (spaCy compares tokens by document and index), and its head
  and an entity's root are given by that index, so \<^verbatim>\<open>token.head == ent.root\<close> is
  \<open>tok_head token = ent_root ent\<close>. \<open>sents\<close> holds \<^verbatim>\<open>sent.text\<close> of each sentence, in
  order.
\<close>

record token =
  tok_i :: nat
  tok_text :: string
  tok_pos :: string
  tok_dep :: string
  tok_head :: nat

record span =
  ent_text :: string
  ent_label :: string
  ent_root :: nat

record doc =
  sents :: "string list"
  tokens :: "token list"
  ents :: "span list"

text \<open>\<^verbatim>\<open>self.nlp\<close>: the provider analyses a text or raises.\<close>

type_synonym provider = "string \<Rightarrow> exn + doc"

section \<open>TextProcesor\<close>

subsection \<open>segment_scenes\<close>

definition markers :: "string list" where
  "markers = [''later'', ''meanwhile'', ''after'', ''before'', ''next'', ''suddenly'']"

text \<open>\<^verbatim>\<open>any(marker in sent.text.lower() for marker in [...])\<close>\<close>

definition has_marker :: "string \<Rightarrow> bool" where
  "has_marker sent = list_ex (\<lambda>marker. contains (lower sent) marker) markers"

text \<open>The loop over \<open>doc.sents\<close>, on the state \<open>(scenes, current_scene)\<close>.\<close>

fun segment_loop :: "string list \<Rightarrow> string list \<Rightarrow> string list \<Rightarrow> string list \<times> string list" where
  "segment_loop [] scenes current_scene = (scenes, current_scene)"
| "segment_loop (sent # rest) scenes current_scene =
     (let current_scene = current_scene @ [sent] in
      if has_marker sent
      then segment_loop rest (scenes @ [join '' '' current_scene]) []
      else segment_loop rest scenes current_scene)"

definition segment_scenes :: "provider \<Rightarrow> string \<Rightarrow> exn + string list" where
  "segment_scenes nlp text =
     (case nlp text of
        Inl e \<Rightarrow> Inl (ProcessingError ''Failed to segment scenes'')
      | Inr doc \<Rightarrow>
          (case segment_loop (sents doc) [] [] of
             (scenes, current_scene) \<Rightarrow>
               (let scenes = (if current_scene \<noteq> []
                              then scenes @ [join '' '' current_scene] else scenes)
                in Inr (if scenes \<noteq> [] then scenes else [text]))))"

subsection \<open>extract_entities\<close>

text \<open>The loop of \<open>_get_entity_description\<close> over the tokens of the document, on
  \<open>description_terms\<close>.\<close>

fun description_loop :: "span \<Rightarrow> token list \<Rightarrow> string list \<Rightarrow> string list" where
  "description_loop ent [] description_terms = description_terms"
| "description_loop ent (token # rest) description_terms =
     (if tok_head token = ent_root ent
      then (if tok_dep token \<in> set [''amod'', ''advmod'']
            then description_loop ent rest (description_terms @ [tok_text token])
            else description_loop ent rest description_terms)
      else description_loop ent rest description_terms)"

definition get_entity_description :: "span \<Rightarrow> doc \<Rightarrow> string" where
  "get_entity_description ent doc =
     (let description_terms = description_loop ent (tokens doc) []
      in if description_terms \<noteq> [] then join '' '' description_terms else [])"

text \<open>\<^verbatim>\<open>importance = 1.0; if ent.label_ in ["PERSON", "ORG"]: importance *= 1.5\<close>. Both
  numbers and their product are exact in binary floating point.\<close>

definition entity_importance :: "span \<Rightarrow> real" where
  "entity_importance ent =
     (let importance = 1.0
      in if ent_label ent \<in> set [''PERSON'', ''ORG''] then importance * 1.5 else importance)"

definition entity_attributes :: "span \<Rightarrow> doc \<Rightarrow> pyval" where
  "entity_attributes ent doc =
     PDict [(''description'', PStr (get_entity_description ent doc)),
            (''label'', PStr (ent_label ent))]"

text \<open>
  The loop over \<open>doc.ents\<close>, on the list \<open>entities\<close> (here \<open>acc\<close>). The constructor is called with the keywords
  \<open>name\<close>, \<open>type\<close>, \<open>attributes\<close> and \<open>importance\<close>, as the source writes them.
\<close>

fun entities_loop :: "doc \<Rightarrow> span list \<Rightarrow> Entity list \<Rightarrow> exn + Entity list" where
  "entities_loop doc [] acc = Inr acc"
| "entities_loop doc (ent # rest) acc =
     (let importance = entity_importance ent;
          attrs = entity_attributes ent doc
      in case Entity_init [(''name'', PStr (ent_text ent)),
                           (''type'', PStr (ent_label ent)),
                           (''attributes'', attrs),
                           (''importance'', PFloat importance)] of
           Inl e \<Rightarrow> Inl e
         | Inr entity \<Rightarrow> entities_loop doc rest (acc @ [entity]))"

text \<open>The body of the \<open>try\<close>, then the handler: every exception becomes a
  \<open>ProcessingError\<close> that quotes it.\<close>

definition extract_entities_body :: "provider \<Rightarrow> string \<Rightarrow> exn + Entity list" where
  "extract_entities_body nlp text =
     (case nlp text of
        Inl e \<Rightarrow> Inl e
      | Inr doc \<Rightarrow> entities_loop doc (ents doc) [])"

definition extract_entities :: "provider \<Rightarrow> string \<Rightarrow> exn + Entity list" where
  "extract_entities nlp text =
     (case extract_entities_body nlp text of
        Inl e \<Rightarrow> Inl (ProcessingError (''Entity extraction failed: '' @ str_exn e))
      | Inr result \<Rightarrow> Inr result)"

subsection \<open>detect_actions\<close>

text \<open>
  \<open>_extract_verb_phrase\<close> is called by \<open>detect_actions\<close> and is not defined in
  \<open>main.py\<close>; it is a parameter here, a function of the token (and of the document the
  token belongs to) that returns a phrase or raises.
\<close>

type_synonym verb_phrase = "doc \<Rightarrow> token \<Rightarrow> exn + string"

text \<open>
  What \<^verbatim>\<open>self._extract_verb_phrase(token)\<close> does in \<open>main.py\<close> as it stands: the class
  \<open>TextProcesor\<close> has no such attribute, so the lookup raises \<open>AttributeError\<close> before
  anything is called.
\<close>

definition undefined_extract_verb_phrase :: verb_phrase where
  "undefined_extract_verb_phrase doc token =
     Inl (AttributeError ([CHR 0x27] @ ''TextProcesor'' @ [CHR 0x27]
            @ '' object has no attribute ''
            @ [CHR 0x27] @ ''_extract_verb_phrase'' @ [CHR 0x27]))"

text \<open>\<^verbatim>\<open>token.pos_ == "VERB" and token.dep_ in ["ROOT", "xcomp"]\<close>; the loop over the
  tokens runs on the list \<open>actions\<close> (here \<open>acc\<close>).\<close>

definition is_action_verb :: "token \<Rightarrow> bool" where
  "is_action_verb token =
     (tok_pos token = ''VERB'' \<and> tok_dep token \<in> set [''ROOT'', ''xcomp''])"

fun actions_loop :: "verb_phrase \<Rightarrow> doc \<Rightarrow> token list \<Rightarrow> string list \<Rightarrow> exn + string list" where
  "actions_loop extract_verb_phrase doc [] acc = Inr acc"
| "actions_loop extract_verb_phrase doc (token # rest) acc =
     (if is_action_verb token
      then (case extract_verb_phrase doc token of
              Inl e \<Rightarrow> Inl e
            | Inr verb_phrase \<Rightarrow>
                (if verb_phrase \<noteq> []
                 then actions_loop extract_verb_phrase doc rest (acc @ [verb_phrase])
                 else actions_loop extract_verb_phrase doc rest acc))
      else actions_loop extract_verb_phrase doc rest acc)"

definition detect_actions_body :: "provider \<Rightarrow> verb_phrase \<Rightarrow> string \<Rightarrow> exn + string list" where
  "detect_actions_body nlp extract_verb_phrase text =
     (case nlp text of
        Inl e \<Rightarrow> Inl e
      | Inr doc \<Rightarrow> actions_loop extract_verb_phrase doc (tokens doc) [])"

definition detect_actions :: "provider \<Rightarrow> verb_phrase \<Rightarrow> string \<Rightarrow> exn + string list" where
  "detect_actions nlp extract_verb_phrase text =
     (case detect_actions_body nlp extract_verb_phrase text of
        Inl e \<Rightarrow> Inl (ProcessingError (''Action detection failed: '' @ str_exn e))
      | Inr result \<Rightarrow> Inr result)"

text \<open>Whether a result is a raised \<open>ProcessingError\<close>, whatever its message.\<close>

fun raises_ProcessingError :: "exn + 'a \<Rightarrow> bool" where
  "raises_ProcessingError (Inl (ProcessingError m)) = True"
| "raises_ProcessingError _ = False"

section \<open>The scene assembler\<close>

text \<open>
  Modelled from the spec: \<open>classify_mood\<close> is not in \<open>main.py\<close>. The spec (4.4) has it
  ask the provider's emotion classifier for a label and a confidence, map the label
  through \<open>EmotionType.from_string\<close>, and raise \<open>ProcessingError\<close> when the classifier
  fails.
\<close>

type_synonym emotion_classifier = "string \<Rightarrow> exn + string \<times> real"

definition classify_mood :: "emotion_classifier \<Rightarrow> string \<Rightarrow> exn + EmotionType" where
  "classify_mood classify_emotion sceneText =
     (case classify_emotion sceneText of
        Inl e \<Rightarrow> Inl (ProcessingError (''Mood classification failed: '' @ str_exn e))
      | Inr (label, confidence) \<Rightarrow> from_string label)"

text \<open>
  Modelled from the spec: \<open>build_scenes\<close> is not in \<open>main.py\<close>. The spec (4.5) has it
  run the segmenter once on the whole text and then, for each scene text in order, run
  the entity extractor, the action extractor and the mood classifier, give the scene the
  zero-based sequential index as its id, and append the assembled \<open>Scene\<close>; a failure of
  any stage fails the whole call with that stage's \<open>ProcessingError\<close>. The three
  extractors are the source's own (\<open>classify_mood\<close> as above).
\<close>

fun scenes_loop ::
  "provider \<Rightarrow> verb_phrase \<Rightarrow> emotion_classifier \<Rightarrow> nat \<Rightarrow> string list \<Rightarrow> Scene list
   \<Rightarrow> exn + Scene list" where
  "scenes_loop nlp evp ce i [] acc = Inr acc"
| "scenes_loop nlp evp ce i (sceneText # rest) acc =
     (case extract_entities nlp sceneText of
        Inl e \<Rightarrow> Inl e
      | Inr es \<Rightarrow>
          (case detect_actions nlp evp sceneText of
             Inl e \<Rightarrow> Inl e
           | Inr acts \<Rightarrow>
               (case classify_mood ce sceneText of
                  Inl e \<Rightarrow> Inl e
                | Inr m \<Rightarrow>
                    scenes_loop nlp evp ce (Suc i) rest
                      (acc @ [\<lparr> scene_id = int i, scene_text = sceneText, entities = es,
                                 mood = m, actions = acts, layout = None,
                                 image_path = None \<rparr>]))))"

definition build_scenes ::
  "provider \<Rightarrow> verb_phrase \<Rightarrow> emotion_classifier \<Rightarrow> string \<Rightarrow> exn + Scene list" where
  "build_scenes nlp evp ce text =
     (case segment_scenes nlp text of
        Inl e \<Rightarrow> Inl e
      | Inr sceneTexts \<Rightarrow> scenes_loop nlp evp ce 0 sceneTexts [])"

section \<open>A provider for concrete runs\<close>

text \<open>
  A provider that knows a handful of texts, annotated the way spaCy's English pipeline
  annotates, and fails on every other text. It is used to run the functions
  above on concrete inputs.
\<close>

definition tok :: "nat \<Rightarrow> string \<Rightarrow> string \<Rightarrow> string \<Rightarrow> nat \<Rightarrow> token" where
  "tok i t p d h = \<lparr> tok_i = i, tok_text = t, tok_pos = p, tok_dep = d, tok_head = h \<rparr>"

definition maria :: span where
  "maria = \<lparr> ent_text = ''Maria'', ent_label = ''PERSON'', ent_root = 0 \<rparr>"

definition garden_doc :: doc where
  "garden_doc =
     \<lparr> sents = [''Maria walked into the garden.''],
       tokens = [tok 0 ''Maria'' ''PROPN'' ''nsubj'' 1, tok 1 ''walked'' ''VERB'' ''ROOT'' 1,
                 tok 2 ''into'' ''ADP'' ''prep'' 1, tok 3 ''the'' ''DET'' ''det'' 4,
                 tok 4 ''garden'' ''NOUN'' ''pobj'' 2, tok 5 ''.'' ''PUNCT'' ''punct'' 1],
       ents = [maria] \<rparr>"

definition letter_doc :: doc where
  "letter_doc =
     \<lparr> sents = [''Later, she found a letter.''],
       tokens = [tok 0 ''Later'' ''ADV'' ''advmod'' 3, tok 1 '','' ''PUNCT'' ''punct'' 3,
                 tok 2 ''she'' ''PRON'' ''nsubj'' 3, tok 3 ''found'' ''VERB'' ''ROOT'' 3,
                 tok 4 ''a'' ''DET'' ''det'' 5, tok 5 ''letter'' ''NOUN'' ''dobj'' 3,
                 tok 6 ''.'' ''PUNCT'' ''punct'' 3],
       ents = [] \<rparr>"

definition story_doc :: doc where
  "story_doc =
     \<lparr> sents = [''Maria walked into the garden.'', ''Later, she found a letter.''],
       tokens = tokens garden_doc @ map (\<lambda>t. t\<lparr> tok_i := tok_i t + 6, tok_head := tok_head t + 6 \<rparr>)
                                      (tokens letter_doc),
       ents = [maria] \<rparr>"

definition brave_maria :: span where
  "brave_maria = \<lparr> ent_text = ''Maria'', ent_label = ''PERSON'', ent_root = 1 \<rparr>"

definition brave_doc :: doc where
  "brave_doc =
     \<lparr> sents = [''Brave Maria smiled.''],
       tokens = [tok 0 ''Brave'' ''ADJ'' ''amod'' 1, tok 1 ''Maria'' ''PROPN'' ''nsubj'' 2,
                 tok 2 ''smiled'' ''VERB'' ''ROOT'' 2, tok 3 ''.'' ''PUNCT'' ''punct'' 2],
       ents = [brave_maria] \<rparr>"

definition ran_slept_doc :: doc where
  "ran_slept_doc =
     \<lparr> sents = [''She ran.'', ''Later, she slept.''],
       tokens = [tok 0 ''She'' ''PRON'' ''nsubj'' 1, tok 1 ''ran'' ''VERB'' ''ROOT'' 1,
                 tok 2 ''.'' ''PUNCT'' ''punct'' 1, tok 3 ''Later'' ''ADV'' ''advmod'' 6,
                 tok 4 '','' ''PUNCT'' ''punct'' 6, tok 5 ''she'' ''PRON'' ''nsubj'' 6,
                 tok 6 ''slept'' ''VERB'' ''ROOT'' 6, tok 7 ''.'' ''PUNCT'' ''punct'' 6],
       ents = [] \<rparr>"

definition sat_doc :: doc where
  "sat_doc =
     \<lparr> sents = [''He sat.''],
       tokens = [tok 0 ''He'' ''PRON'' ''nsubj'' 1, tok 1 ''sat'' ''VERB'' ''ROOT'' 1,
                 tok 2 ''.'' ''PUNCT'' ''punct'' 1],
       ents = [] \<rparr>"

definition day_doc :: doc where
  "day_doc =
     \<lparr> sents = [''She ran.'', ''Later, she slept.'', ''He sat.''],
       tokens = tokens ran_slept_doc @ map (\<lambda>t. t\<lparr> tok_i := tok_i t + 8, tok_head := tok_head t + 8 \<rparr>)
                                         (tokens sat_doc),
       ents = [] \<rparr>"

definition silence_doc :: doc where
  "silence_doc =
     \<lparr> sents = [''Silence.''],
       tokens = [tok 0 ''Silence'' ''NOUN'' ''ROOT'' 0, tok 1 ''.'' ''PUNCT'' ''punct'' 0],
       ents = [] \<rparr>"

text \<open>A text whose two sentences are two spaces apart: the first space follows the full
  stop, the second is a token of its own that closes the first sentence, whose text so
  ends with both.\<close>

definition wide_doc :: doc where
  "wide_doc =
     \<lparr> sents = [''I ran.  '', ''She sat.''],
       tokens = [tok 0 ''I'' ''PRON'' ''nsubj'' 1, tok 1 ''ran'' ''VERB'' ''ROOT'' 1,
                 tok 2 ''.'' ''PUNCT'' ''punct'' 1, tok 3 '' '' ''SPACE'' ''dep'' 2,
                 tok 4 ''She'' ''PRON'' ''nsubj'' 5, tok 5 ''sat'' ''VERB'' ''ROOT'' 5,
                 tok 6 ''.'' ''PUNCT'' ''punct'' 5],
       ents = [] \<rparr>"

definition nlp_demo :: provider where
  "nlp_demo text =
     (if text = ''Maria walked into the garden. Later, she found a letter.'' then Inr story_doc
      else if text = ''Maria walked into the garden.'' then Inr garden_doc
      else if text = ''Later, she found a letter.'' then Inr letter_doc
      else if text = ''Brave Maria smiled.'' then Inr brave_doc
      else if text = ''She ran. Later, she slept. He sat.'' then Inr day_doc
      else if text = ''She ran. Later, she slept.'' then Inr ran_slept_doc
      else if text = ''He sat.'' then Inr sat_doc
      else if text = ''Silence.'' then Inr silence_doc
      else if text = ''I ran.  She sat.'' then Inr wide_doc
      else Inl (Exception ''cannot analyse the text''))"

text \<open>A verb-phrase construction that yields the verb alone, and an emotion classifier
  with one answer.\<close>

definition verb_alone :: verb_phrase where
  "verb_alone doc token = Inr (tok_text token)"

definition always_joy :: emotion_classifier where
  "always_joy text = Inr (''joy'', 0.9)"

text \<open>The two scenes of \<open>She ran. Later, she slept. He sat.\<close>\<close>

definition ran_slept_scene :: Scene where
  "ran_slept_scene =
     \<lparr> scene_id = 0, scene_text = ''She ran. Later, she slept.'', entities = [],
       mood = OTHER, actions = [''ran'', ''slept''], layout = None, image_path = None \<rparr>"

definition sat_scene :: Scene where
  "sat_scene =
     \<lparr> scene_id = 1, scene_text = ''He sat.'', entities = [],
       mood = OTHER, actions = [''sat''], layout = None, image_path = None \<rparr>"

section \<open>Properties\<close>

subsection \<open>Strings\<close>

lemma lower_letter_fixed: "d \<in> set lower_letters \<Longrightarrow> char_lower d = d"
proof -
  have "\<forall>d \<in> set lower_letters. char_lower d = d"
    unfolding lower_letters_def
    by (simp add: char_lower_def upper_letters_def lower_letters_def)
  then show "d \<in> set lower_letters \<Longrightarrow> char_lower d = d" by blast
qed

lemma char_lower_idem: "char_lower (char_lower c) = char_lower c"
proof (cases "map_of (zip upper_letters lower_letters) c")
  case None
  then show ?thesis by (simp add: char_lower_def)
next
  case (Some d)
  then have "(c, d) \<in> set (zip upper_letters lower_letters)"
    by (rule map_of_SomeD)
  then have "d \<in> set lower_letters"
    by (rule set_zip_rightD)
  then have "char_lower d = d"
    by (rule lower_letter_fixed)
  moreover have "char_lower c = d"
    using Some by (simp add: char_lower_def)
  ultimately show ?thesis by simp
qed

lemma lower_idem: "lower (lower s) = lower s"
  by (simp add: lower_def char_lower_idem)

subsection \<open>EmotionType.from_string\<close>

lemma lower_value: "lower (value m) = value m"
  by (cases m)
     (simp_all add: lower_def char_lower_def upper_letters_def lower_letters_def)

lemma EmotionType_call_value: "EmotionType_call (value m) = Inr m"
  by (cases m) (simp_all add: EmotionType_call_def members_def)

lemma from_string_value: "from_string (value m) = Inr m"
  by (simp add: from_string_def lower_value EmotionType_call_value)

lemma from_string_returns: "\<exists>m. from_string s = Inr m"
  by (simp add: from_string_def EmotionType_call_def split: option.split)

lemma from_string_lower: "from_string (lower s) = from_string s"
  by (simp add: from_string_def lower_idem)

text \<open>
  C3. \<open>EmotionType.from_string\<close> returns a member for every string (it never raises),
  sends a string without a member to \<open>OTHER\<close>, does not depend on the case of its
  argument, and is idempotent: applied to the value of its own result it gives that
  result again.
\<close>

theorem from_string_total_caseless_idempotent:
  "(\<exists>m. from_string s = Inr m \<and> from_string (value m) = Inr m)
   \<and> from_string s =
       Inr (case find (\<lambda>m. value m = lower s) members of Some m \<Rightarrow> m | None \<Rightarrow> OTHER)
   \<and> from_string (lower s) = from_string s
   \<and> from_string ''HAPPY'' = Inr HAPPY
   \<and> from_string ''gibberish'' = Inr OTHER"
proof -
  obtain m where m: "from_string s = Inr m"
    using from_string_returns by blast
  have a: "\<exists>m. from_string s = Inr m \<and> from_string (value m) = Inr m"
    using m from_string_value by blast
  have b: "from_string s =
       Inr (case find (\<lambda>m. value m = lower s) members of Some m \<Rightarrow> m | None \<Rightarrow> OTHER)"
    by (simp add: from_string_def EmotionType_call_def split: option.split)
  have c: "from_string ''HAPPY'' = Inr HAPPY"
    by (simp add: from_string_def EmotionType_call_def members_def lower_def
        char_lower_def upper_letters_def lower_letters_def)
  have d: "from_string ''gibberish'' = Inr OTHER"
    by (simp add: from_string_def EmotionType_call_def members_def lower_def
        char_lower_def upper_letters_def lower_letters_def)
  show ?thesis
    using a b c d from_string_lower by blast
qed

subsection \<open>segment_scenes\<close>

lemmas demo_defs = nlp_demo_def story_doc_def garden_doc_def letter_doc_def brave_doc_def
  day_doc_def ran_slept_doc_def sat_doc_def silence_doc_def wide_doc_def tok_def maria_def brave_maria_def

lemmas lower_defs = lower_def char_lower_def upper_letters_def lower_letters_def

lemma strip_ws_append: "strip_ws (a @ b) = strip_ws a @ strip_ws b"
  by (simp add: strip_ws_def)

lemma strip_ws_space: "strip_ws '' '' = []"
  by (simp add: strip_ws_def whitespace_def)

lemma strip_ws_join_sep:
  "strip_ws sep = [] \<Longrightarrow> strip_ws (join sep xs) = strip_ws (concat xs)"
  by (induction sep xs rule: join.induct) (simp_all add: strip_ws_append)

lemma strip_ws_join: "strip_ws (join '' '' xs) = strip_ws (concat xs)"
  by (rule strip_ws_join_sep) (rule strip_ws_space)

lemma segment_loop_groups:
  "segment_loop ss scenes cur = (scenes', cur') \<Longrightarrow>
   \<exists>groups. scenes' = scenes @ map (join '' '') groups \<and> [] \<notin> set groups
           \<and> concat groups @ cur' = cur @ ss"
proof (induction ss arbitrary: scenes cur)
  case Nil
  then have "scenes' = scenes @ map (join '' '') [] \<and> [] \<notin> set ([] :: string list list) \<and> concat [] @ cur' = cur @ []"
    by simp
  then show ?case by blast
next
  case (Cons s ss)
  show ?case
  proof (cases "has_marker s")
    case True
    with Cons.prems have "segment_loop ss (scenes @ [join '' '' (cur @ [s])]) [] = (scenes', cur')"
      by simp
    from Cons.IH[OF this] obtain groups where
      g: "scenes' = (scenes @ [join '' '' (cur @ [s])]) @ map (join '' '') groups"
         "[] \<notin> set groups" "concat groups @ cur' = [] @ ss"
      by blast
    have "scenes' = scenes @ map (join '' '') ((cur @ [s]) # groups)
          \<and> [] \<notin> set ((cur @ [s]) # groups)
          \<and> concat ((cur @ [s]) # groups) @ cur' = cur @ s # ss"
      using g by simp
    then show ?thesis by blast
  next
    case False
    with Cons.prems have "segment_loop ss scenes (cur @ [s]) = (scenes', cur')"
      by simp
    from Cons.IH[OF this] show ?thesis by simp
  qed
qed

lemma segment_scenes_groups:
  assumes "nlp text = Inr doc" and "sents doc \<noteq> []"
  shows "\<exists>groups. segment_scenes nlp text = Inr (map (join '' '') groups)
           \<and> [] \<notin> set groups \<and> concat groups = sents doc"
proof -
  obtain scenes cur where l: "segment_loop (sents doc) [] [] = (scenes, cur)"
    by (cases "segment_loop (sents doc) [] []") blast
  from segment_loop_groups[OF l] obtain groups where
    g: "scenes = map (join '' '') groups" "[] \<notin> set groups" "concat groups @ cur = sents doc"
    by auto
  show ?thesis
  proof (cases "cur = []")
    case True
    with g assms(2) have "groups \<noteq> []" by auto
    with True g l assms(1) have "segment_scenes nlp text = Inr (map (join '' '') groups)"
      by (simp add: segment_scenes_def)
    with g True show ?thesis by auto
  next
    case False
    with g l assms(1) have "segment_scenes nlp text = Inr (map (join '' '') (groups @ [cur]))"
      by (simp add: segment_scenes_def)
    moreover have "[] \<notin> set (groups @ [cur])" using g False by auto
    moreover have "concat (groups @ [cur]) = sents doc" using g by simp
    ultimately show ?thesis by blast
  qed
qed

lemma strip_ws_concat_joins:
  "strip_ws (concat (map (join '' '') groups)) = strip_ws (concat (concat groups))"
  by (induction groups) (simp_all add: strip_ws_append strip_ws_join)

lemma segment_scenes_no_sentence:
  assumes "nlp text = Inr doc" and "sents doc = []"
  shows "segment_scenes nlp text = Inr [text]"
  using assms by (simp add: segment_scenes_def)

text \<open>
  C1. When the provider analyses the text, \<open>segment_scenes\<close> returns scene strings
  whose concatenation is the input text up to white space, provided the provider's
  sentence texts cover the text up to white space (spaCy's sentences partition the
  document, and a sentence's text is its characters without the trailing white space).
  The scenes are the sentence texts themselves, unchanged and in order, cut into
  consecutive non-empty groups and joined by single spaces inside each group.
\<close>

theorem segment_scenes_lossless:
  assumes "nlp text = Inr doc"
    and "strip_ws (concat (sents doc)) = strip_ws text"
  shows "\<exists>scenes. segment_scenes nlp text = Inr scenes
           \<and> strip_ws (concat scenes) = strip_ws text
           \<and> (sents doc = [] \<and> scenes = [text]
                \<or> (\<exists>groups. scenes = map (join '' '') groups \<and> [] \<notin> set groups
                      \<and> concat groups = sents doc))"
proof (cases "sents doc = []")
  case True
  with assms(1) have "segment_scenes nlp text = Inr [text]"
    by (rule segment_scenes_no_sentence)
  with True show ?thesis by simp
next
  case False
  with assms(1) obtain groups where
    g: "segment_scenes nlp text = Inr (map (join '' '') groups)" "[] \<notin> set groups"
       "concat groups = sents doc"
    using segment_scenes_groups by blast
  have "strip_ws (concat (map (join '' '') groups)) = strip_ws text"
    using g(3) assms(2) by (simp add: strip_ws_concat_joins)
  with g show ?thesis by blast
qed

lemma day_provider: "nlp_demo ''She ran. Later, she slept. He sat.'' = Inr day_doc"
  by (simp add: nlp_demo_def)

lemma day_covered:
  "strip_ws (concat (sents day_doc)) = strip_ws ''She ran. Later, she slept. He sat.''"
  by (simp add: strip_ws_def whitespace_def day_doc_def)

theorem segment_scenes_lossless_witness:
  "nlp_demo ''She ran. Later, she slept. He sat.'' = Inr day_doc
   \<and> strip_ws (concat (sents day_doc)) = strip_ws ''She ran. Later, she slept. He sat.''
   \<and> (\<exists>scenes. segment_scenes nlp_demo ''She ran. Later, she slept. He sat.'' = Inr scenes
           \<and> strip_ws (concat scenes) = strip_ws ''She ran. Later, she slept. He sat.''
           \<and> (sents day_doc = [] \<and> scenes = [''She ran. Later, she slept. He sat.'']
                \<or> (\<exists>groups. scenes = map (join '' '') groups \<and> [] \<notin> set groups
                      \<and> concat groups = sents day_doc)))"
  using day_provider day_covered
    segment_scenes_lossless[of nlp_demo "''She ran. Later, she slept. He sat.''" day_doc,
      OF day_provider day_covered]
  by (intro conjI)

lemma day_segments:
  "segment_scenes nlp_demo ''She ran. Later, she slept. He sat.''
     = Inr [''She ran. Later, she slept.'', ''He sat.'']"
  by (simp add: segment_scenes_def demo_defs has_marker_def markers_def lower_defs)

lemma segment_loop_no_marker:
  "\<not> list_ex has_marker ss \<Longrightarrow> segment_loop ss scenes cur = (scenes, cur @ ss)"
  by (induction ss arbitrary: cur) simp_all

lemma segment_scenes_nonempty:
  "nlp text = Inr doc \<Longrightarrow> \<exists>scenes. segment_scenes nlp text = Inr scenes \<and> scenes \<noteq> []"
  by (simp add: segment_scenes_def split: prod.split)

lemma segment_scenes_no_marker:
  assumes "nlp text = Inr doc" and "\<not> list_ex has_marker (sents doc)"
  shows "segment_scenes nlp text = Inr [if sents doc = [] then text else join '' '' (sents doc)]"
  using assms by (simp add: segment_scenes_def segment_loop_no_marker)

text \<open>
  C4 (amended). When the provider analyses the text, \<open>segment_scenes\<close> returns a
  non-empty sequence; and if no sentence contains a discourse marker, the result is
  exactly one scene: the provider's sentence texts joined by single spaces, or the input
  text itself when the provider reports no sentence.
\<close>

theorem segment_scenes_nonempty_single:
  assumes "nlp text = Inr doc"
  shows "\<exists>scenes. segment_scenes nlp text = Inr scenes \<and> scenes \<noteq> []
           \<and> (\<not> list_ex has_marker (sents doc) \<longrightarrow>
                scenes = [if sents doc = [] then text else join '' '' (sents doc)])"
proof -
  from assms obtain scenes where s: "segment_scenes nlp text = Inr scenes" "scenes \<noteq> []"
    using segment_scenes_nonempty by blast
  have "\<not> list_ex has_marker (sents doc) \<longrightarrow>
          scenes = [if sents doc = [] then text else join '' '' (sents doc)]"
    using s(1) segment_scenes_no_marker[of nlp "text" doc] assms by simp
  with s show ?thesis by blast
qed

lemma wide_no_marker: "\<not> list_ex has_marker (sents wide_doc)"
  by (simp add: demo_defs has_marker_def markers_def lower_defs)

lemma wide_provider: "nlp_demo ''I ran.  She sat.'' = Inr wide_doc"
  by (simp add: nlp_demo_def)

theorem segment_scenes_nonempty_single_witness:
  "nlp_demo ''I ran.  She sat.'' = Inr wide_doc
   \<and> \<not> list_ex has_marker (sents wide_doc)
   \<and> (\<exists>scenes. segment_scenes nlp_demo ''I ran.  She sat.'' = Inr scenes \<and> scenes \<noteq> []
           \<and> (\<not> list_ex has_marker (sents wide_doc) \<longrightarrow>
                scenes = [if sents wide_doc = [] then ''I ran.  She sat.''
                          else join '' '' (sents wide_doc)]))"
  using wide_provider wide_no_marker
    segment_scenes_nonempty_single[of nlp_demo "''I ran.  She sat.''" wide_doc, OF wide_provider]
  by (intro conjI)

text \<open>
  The single scene need not be the input: where two sentences are not exactly one
  space apart in the text, the scene joins them by one space all the same.
\<close>

theorem segment_scenes_whole_input_counterexample:
  "nlp_demo ''I ran.  She sat.'' = Inr wide_doc
   \<and> ''I ran.  She sat.'' \<noteq> []
   \<and> strip_ws (concat (sents wide_doc)) = strip_ws ''I ran.  She sat.''
   \<and> \<not> list_ex has_marker (sents wide_doc)
   \<and> segment_scenes nlp_demo ''I ran.  She sat.'' = Inr [''I ran.   She sat.'']
   \<and> segment_scenes nlp_demo ''I ran.  She sat.'' \<noteq> Inr [''I ran.  She sat.'']"
proof -
  have a: "strip_ws (concat (sents wide_doc)) = strip_ws ''I ran.  She sat.''"
    by (simp add: strip_ws_def whitespace_def wide_doc_def)
  have b: "segment_scenes nlp_demo ''I ran.  She sat.'' = Inr [''I ran.   She sat.'']"
    using segment_scenes_no_marker[of nlp_demo "''I ran.  She sat.''" wide_doc,
        OF wide_provider wide_no_marker]
    by (simp add: wide_doc_def)
  have c: "segment_scenes nlp_demo ''I ran.  She sat.'' \<noteq> Inr [''I ran.  She sat.'']"
    by (simp add: b)
  show ?thesis using wide_provider wide_no_marker a b c by simp
qed

subsection \<open>detect_actions\<close>

lemma actions_loop_phrases:
  "\<forall>t \<in> set (filter is_action_verb ts). evp doc t = Inr (phrase t) \<Longrightarrow>
   actions_loop evp doc ts acc
     = Inr (acc @ filter (\<lambda>p. p \<noteq> []) (map phrase (filter is_action_verb ts)))"
  by (induction ts arbitrary: acc) simp_all

text \<open>
  With a verb-phrase construction that returns a phrase for every token that is a verb
  with dependency relation \<open>ROOT\<close> or \<open>xcomp\<close>, \<open>detect_actions\<close> returns the non-empty
  ones among these phrases, one per such token, in the order of the tokens, duplicates
  included.
\<close>

lemma detect_actions_phrases:
  assumes "nlp text = Inr doc"
    and "\<forall>t \<in> set (filter is_action_verb (tokens doc)). evp doc t = Inr (phrase t)"
  shows "detect_actions nlp evp text
           = Inr (filter (\<lambda>p. p \<noteq> []) (map phrase (filter is_action_verb (tokens doc))))"
  using assms(1)
    actions_loop_phrases[where ts = "tokens doc" and evp = evp and doc = doc
      and phrase = phrase and acc = "[]", OF assms(2)]
  by (simp add: detect_actions_def detect_actions_body_def)

lemma ran_slept_provider: "nlp_demo ''She ran. Later, she slept.'' = Inr ran_slept_doc"
  by (simp add: nlp_demo_def)

lemma ran_slept_verbs:
  "filter is_action_verb (tokens ran_slept_doc)
     = [tok 1 ''ran'' ''VERB'' ''ROOT'' 1, tok 6 ''slept'' ''VERB'' ''ROOT'' 6]"
  by (simp add: ran_slept_doc_def is_action_verb_def tok_def)

lemma detect_actions_verb_alone:
  "nlp_demo ''She ran. Later, she slept.'' = Inr ran_slept_doc
   \<and> list_all (\<lambda>t. verb_alone ran_slept_doc t = Inr (tok_text t))
        (filter is_action_verb (tokens ran_slept_doc))
   \<and> detect_actions nlp_demo verb_alone ''She ran. Later, she slept.'' = Inr [''ran'', ''slept'']"
proof -
  have h: "\<forall>t \<in> set (filter is_action_verb (tokens ran_slept_doc)).
             verb_alone ran_slept_doc t = Inr (tok_text t)"
    by (simp add: verb_alone_def)
  have "detect_actions nlp_demo verb_alone ''She ran. Later, she slept.''
          = Inr (filter (\<lambda>p. p \<noteq> []) (map tok_text (filter is_action_verb (tokens ran_slept_doc))))"
    using ran_slept_provider h
    by (rule detect_actions_phrases[of nlp_demo "''She ran. Later, she slept.''" ran_slept_doc])
  then have "detect_actions nlp_demo verb_alone ''She ran. Later, she slept.'' = Inr [''ran'', ''slept'']"
    by (simp add: ran_slept_verbs tok_def)
  then show ?thesis
    using ran_slept_provider by (simp add: verb_alone_def list_all_iff)
qed

lemma actions_loop_no_verb:
  "\<not> list_ex is_action_verb ts \<Longrightarrow> actions_loop evp doc ts acc = Inr acc"
  by (induction ts) simp_all

text \<open>
  C10. When the provider analyses the text and no token is a verb with dependency
  relation \<open>ROOT\<close> or \<open>xcomp\<close>, \<open>detect_actions\<close> returns the empty list and raises
  nothing, whatever the verb-phrase construction is.
\<close>

theorem detect_actions_no_verb:
  assumes "nlp text = Inr doc" and "\<not> list_ex is_action_verb (tokens doc)"
  shows "detect_actions nlp evp text = Inr []"
  using assms by (simp add: detect_actions_def detect_actions_body_def actions_loop_no_verb)

lemma silence_provider: "nlp_demo ''Silence.'' = Inr silence_doc"
  by (simp add: nlp_demo_def)

lemma silence_no_verb: "\<not> list_ex is_action_verb (tokens silence_doc)"
  by (simp add: silence_doc_def is_action_verb_def tok_def)

theorem detect_actions_no_verb_witness:
  "nlp_demo ''Silence.'' = Inr silence_doc
   \<and> \<not> list_ex is_action_verb (tokens silence_doc)
   \<and> detect_actions nlp_demo verb_alone ''Silence.'' = Inr []"
  using silence_provider silence_no_verb
    detect_actions_no_verb[of nlp_demo "''Silence.''" silence_doc verb_alone,
      OF silence_provider silence_no_verb]
  by (intro conjI)

text \<open>When the verb-phrase construction raises, a text with a triggering verb makes
  \<open>detect_actions\<close> raise.\<close>

lemma actions_loop_phrase_raises:
  "list_ex is_action_verb ts \<Longrightarrow> (\<And>t. evp doc t = Inl e) \<Longrightarrow>
   actions_loop evp doc ts acc = Inl e"
  by (induction ts) auto

lemma detect_actions_phrase_raises:
  assumes "nlp text = Inr doc" and "list_ex is_action_verb (tokens doc)"
    and "\<And>t. evp doc t = Inl e"
  shows "raises_ProcessingError (detect_actions nlp evp text)"
  using assms(1) actions_loop_phrase_raises[of "tokens doc" evp doc e "[]", OF assms(2) assms(3)]
  by (simp add: detect_actions_def detect_actions_body_def)

lemma ran_slept_has_verb: "list_ex is_action_verb (tokens ran_slept_doc)"
  by (simp add: ran_slept_doc_def is_action_verb_def tok_def)

text \<open>
  C8. \<open>detect_actions\<close> should return one phrase per token that is a verb with
  dependency relation \<open>ROOT\<close> or \<open>xcomp\<close>, in token order. In \<open>main.py\<close> the method
  that builds the phrase does not exist: for a text with such a verb the call raises
  \<open>AttributeError\<close>, which the handler turns into \<open>ProcessingError\<close>, and no phrase is
  returned.
\<close>

theorem detect_actions_verb_raises:
  "nlp_demo ''She ran. Later, she slept.'' = Inr ran_slept_doc
   \<and> list_ex is_action_verb (tokens ran_slept_doc)
   \<and> raises_ProcessingError
        (detect_actions nlp_demo undefined_extract_verb_phrase ''She ran. Later, she slept.'')"
proof -
  have "raises_ProcessingError
        (detect_actions nlp_demo undefined_extract_verb_phrase ''She ran. Later, she slept.'')"
    using ran_slept_provider ran_slept_has_verb
    by (rule detect_actions_phrase_raises) (simp add: undefined_extract_verb_phrase_def)
  then show ?thesis
    using ran_slept_provider ran_slept_has_verb by simp
qed

subsection \<open>Entity and Scene dictionaries\<close>

lemma Entity_to_dict_keys: "keys (Entity_to_dict e) = Entity_fields"
  by (simp add: Entity_to_dict_def Entity_fields_def)

lemma Scene_to_dict_keys:
  "keys (Scene_to_dict s)
     = [''id'', ''text'', ''entities'', ''mood'', ''actions'', ''layout'', ''image_path'']"
  by (simp add: Scene_to_dict_def)

lemma Scene_to_dict_entities_mood:
  "map_of (case Scene_to_dict s of PDict kvs \<Rightarrow> kvs) ''entities''
     = Some (PList (map Entity_to_dict (entities s)))
   \<and> map_of (case Scene_to_dict s of PDict kvs \<Rightarrow> kvs) ''mood'' = Some (PStr (value (mood s)))"
  by (simp add: Scene_to_dict_def)

text \<open>
  C5. \<open>Scene.to_dict\<close> has exactly the keys of the claim (\<open>Scene_to_dict_keys\<close>), but
  \<open>Entity.to_dict\<close> has the key \<open>importanc\<close>, the name of the field, where the claim
  and the call in \<open>extract_entities\<close> say \<open>importance\<close>.
\<close>

theorem Entity_to_dict_importanc_key:
  "keys (Entity_to_dict \<lparr> name = PStr ''Maria'', type = PStr ''PERSON'',
                           attributes = PDict [(''description'', PStr []), (''label'', PStr ''PERSON'')],
                           position = PNone, importanc = PFloat 1.5 \<rparr>)
     = [''name'', ''type'', ''attributes'', ''position'', ''importanc'']
   \<and> ''importance'' \<notin> set (keys (Entity_to_dict \<lparr> name = PStr ''Maria'', type = PStr ''PERSON'',
                           attributes = PDict [(''description'', PStr []), (''label'', PStr ''PERSON'')],
                           position = PNone, importanc = PFloat 1.5 \<rparr>))"
  by (simp add: Entity_to_dict_def)

subsection \<open>extract_entities\<close>

lemma Entity_init_importance:
  "\<exists>m. Entity_init [(''name'', n), (''type'', t), (''attributes'', a), (''importance'', w)]
         = Inl (TypeError m)"
  by (simp add: Entity_init_def Entity_fields_def)

lemma entities_loop_Nil: "entities_loop doc [] [] = Inr []"
  by simp

lemma entities_loop_Cons: "\<exists>m. entities_loop doc (ent # rest) acc = Inl (TypeError m)"
  using Entity_init_importance[of "PStr (ent_text ent)" "PStr (ent_label ent)"
      "entity_attributes ent doc" "PFloat (entity_importance ent)"]
  by auto

lemma extract_entities_no_entity:
  "nlp text = Inr doc \<Longrightarrow> ents doc = [] \<Longrightarrow> extract_entities nlp text = Inr []"
  by (simp add: extract_entities_def extract_entities_body_def)

lemma extract_entities_some_entity:
  assumes "nlp text = Inr doc" and "ents doc \<noteq> []"
  shows "raises_ProcessingError (extract_entities nlp text)"
proof -
  from assms(2) obtain ent rest where "ents doc = ent # rest"
    by (cases "ents doc") auto
  then obtain m where "entities_loop doc (ents doc) [] = Inl (TypeError m)"
    using entities_loop_Cons[of doc ent rest "[]"] by auto
  with assms(1) show ?thesis
    by (simp add: extract_entities_def extract_entities_body_def)
qed

lemma extract_entities_provider_fails:
  "nlp text = Inl e \<Longrightarrow> raises_ProcessingError (extract_entities nlp text)"
  by (simp add: extract_entities_def extract_entities_body_def)

lemma extract_entities_returns_empty:
  assumes "extract_entities nlp text = Inr es"
  shows "es = []"
proof (cases "nlp text")
  case (Inl e)
  with assms show ?thesis
    by (simp add: extract_entities_def extract_entities_body_def)
next
  case (Inr doc)
  show ?thesis
  proof (cases "ents doc = []")
    case True
    with Inr assms show ?thesis by (simp add: extract_entities_no_entity)
  next
    case False
    with Inr have "raises_ProcessingError (extract_entities nlp text)"
      by (rule extract_entities_some_entity)
    with assms show ?thesis by simp
  qed
qed

lemma garden_provider: "nlp_demo ''Maria walked into the garden.'' = Inr garden_doc"
  by (simp add: nlp_demo_def)

text \<open>
  C2. For an entity labelled \<open>PERSON\<close> the weight that \<open>extract_entities\<close> computes is
  1.5, but the call of the constructor passes it as \<open>importance\<close> to a class whose
  field is \<open>importanc\<close>: the \<open>TypeError\<close> becomes a \<open>ProcessingError\<close> and no entity
  record is returned.
\<close>

theorem extract_entities_person_raises:
  "nlp_demo ''Maria walked into the garden.'' = Inr garden_doc
   \<and> ents garden_doc = [maria]
   \<and> ent_label maria = ''PERSON''
   \<and> entity_importance maria = 1.5
   \<and> raises_ProcessingError (extract_entities nlp_demo ''Maria walked into the garden.'')"
proof -
  have "raises_ProcessingError (extract_entities nlp_demo ''Maria walked into the garden.'')"
    using garden_provider by (rule extract_entities_some_entity) (simp add: garden_doc_def)
  then show ?thesis
    using garden_provider by (simp add: garden_doc_def maria_def entity_importance_def)
qed

lemma story_provider:
  "nlp_demo ''Maria walked into the garden. Later, she found a letter.'' = Inr story_doc"
  by (simp add: nlp_demo_def)

text \<open>
  C6. \<open>extract_entities\<close> raises \<open>ProcessingError\<close> although the provider has analysed
  the text, as soon as the document has an entity span.
\<close>

theorem extract_entities_raises_on_provider_success:
  "nlp_demo ''Maria walked into the garden. Later, she found a letter.'' = Inr story_doc
   \<and> raises_ProcessingError
        (extract_entities nlp_demo ''Maria walked into the garden. Later, she found a letter.'')"
proof -
  have "raises_ProcessingError
        (extract_entities nlp_demo ''Maria walked into the garden. Later, she found a letter.'')"
    using story_provider by (rule extract_entities_some_entity) (simp add: story_doc_def)
  then show ?thesis
    using story_provider by simp
qed

lemma description_loop_filter:
  "description_loop ent ts acc
     = acc @ map tok_text
         (filter (\<lambda>t. tok_head t = ent_root ent \<and> tok_dep t \<in> {''amod'', ''advmod''}) ts)"
  by (induction ts arbitrary: acc) simp_all

lemma get_entity_description_join:
  "get_entity_description ent doc
     = join '' '' (map tok_text
         (filter (\<lambda>t. tok_head t = ent_root ent \<and> tok_dep t \<in> {''amod'', ''advmod''})
            (tokens doc)))"
  by (simp add: get_entity_description_def description_loop_filter[of ent "tokens doc" "[]", simplified])

lemma entity_attributes_keys:
  "keys (entity_attributes ent doc) = [''description'', ''label'']"
  by (simp add: entity_attributes_def)

lemma brave_provider: "nlp_demo ''Brave Maria smiled.'' = Inr brave_doc"
  by (simp add: nlp_demo_def)

text \<open>
  C7. The attributes that \<open>extract_entities\<close> builds for a span are the claim's
  (\<open>get_entity_description_join\<close>, \<open>entity_attributes_keys\<close>): here \<open>description\<close> is
  \<open>Brave\<close> and \<open>label\<close> is \<open>PERSON\<close>. The constructor then raises, so no \<open>Entity\<close>
  carries them.
\<close>

theorem extract_entities_described_raises:
  "nlp_demo ''Brave Maria smiled.'' = Inr brave_doc
   \<and> ents brave_doc = [brave_maria]
   \<and> entity_attributes brave_maria brave_doc
       = PDict [(''description'', PStr ''Brave''), (''label'', PStr ''PERSON'')]
   \<and> raises_ProcessingError (extract_entities nlp_demo ''Brave Maria smiled.'')"
proof -
  have "raises_ProcessingError (extract_entities nlp_demo ''Brave Maria smiled.'')"
    using brave_provider by (rule extract_entities_some_entity) (simp add: brave_doc_def)
  moreover have "entity_attributes brave_maria brave_doc
       = PDict [(''description'', PStr ''Brave''), (''label'', PStr ''PERSON'')]"
    by (simp add: entity_attributes_def get_entity_description_def brave_doc_def
        brave_maria_def tok_def)
  ultimately show ?thesis
    using brave_provider by (simp add: brave_doc_def)
qed

subsection \<open>build_scenes\<close>

lemma scenes_loop_step:
  assumes "scenes_loop nlp evp ce i (t # ts) acc = Inr out"
  shows "\<exists>s. scene_id s = int i \<and> scene_text s = t
           \<and> scenes_loop nlp evp ce (Suc i) ts (acc @ [s]) = Inr out"
proof (cases "extract_entities nlp t")
  case (Inl e)
  with assms show ?thesis by simp
next
  case es: (Inr es)
  show ?thesis
  proof (cases "detect_actions nlp evp t")
    case (Inl e)
    with assms es show ?thesis by simp
  next
    case acts: (Inr acts)
    show ?thesis
    proof (cases "classify_mood ce t")
      case (Inl e)
      with assms es acts show ?thesis by simp
    next
      case (Inr m)
      let ?s = "\<lparr> scene_id = int i, scene_text = t, entities = es, mood = m,
                  actions = acts, layout = None, image_path = None \<rparr>"
      from assms es acts Inr
      have "scenes_loop nlp evp ce (Suc i) ts (acc @ [?s]) = Inr out"
        by simp
      moreover have "scene_id ?s = int i" by simp
      moreover have "scene_text ?s = t" by simp
      ultimately show ?thesis by (intro exI[of _ ?s] conjI)
    qed
  qed
qed


lemma upt_shift: "[i..<i + length (t # ts)] = i # [Suc i..<Suc i + length ts]"
proof -
  have lt: "i < i + length (t # ts)" by simp
  have eq: "i + length (t # ts) = Suc i + length ts" by simp
  have "[i..<i + length (t # ts)] = i # [Suc i..<i + length (t # ts)]"
    using lt by (rule upt_conv_Cons)
  then show ?thesis by (simp only: eq)
qed

lemma scenes_loop_ids:
  "scenes_loop nlp evp ce i ts acc = Inr out \<Longrightarrow>
   \<exists>new. out = acc @ new \<and> map scene_text new = ts
         \<and> map scene_id new = map int [i..<i + length ts]"
proof (induction ts arbitrary: i acc)
  case Nil
  then show ?case by simp
next
  case (Cons t ts)
  from scenes_loop_step[OF Cons.prems] obtain s where
    s: "scene_id s = int i" "scene_text s = t"
    and step: "scenes_loop nlp evp ce (Suc i) ts (acc @ [s]) = Inr out"
    by (elim exE conjE)
  from Cons.IH[OF step] obtain new where
    n: "out = (acc @ [s]) @ new" "map scene_text new = ts"
       "map scene_id new = map int [Suc i..<Suc i + length ts]"
    by (elim exE conjE)
  have a: "out = acc @ (s # new)"
    using n(1) by simp
  have b: "map scene_text (s # new) = t # ts"
    using n(2) s(2) by simp
  have c: "map scene_id (s # new) = map int [i..<i + length (t # ts)]"
    by (simp only: upt_shift list.map n(3) s(1))
  from a b c show ?case by (intro exI[of _ "s # new"] conjI)
qed


text \<open>
  C9. When \<open>build_scenes\<close> returns \<open>N\<close> scenes, their ids are \<open>0, ..., N - 1\<close> in the
  order of the list, and their texts are the scene texts of the segmenter in the same
  order.
\<close>

theorem build_scenes_ids:
  assumes "build_scenes nlp evp ce text = Inr scenes"
  shows "map scene_id scenes = map int [0..<length scenes]
         \<and> segment_scenes nlp text = Inr (map scene_text scenes)"
proof (cases "segment_scenes nlp text")
  case (Inl e)
  with assms show ?thesis by (simp add: build_scenes_def)
next
  case (Inr ts)
  with assms have l: "scenes_loop nlp evp ce 0 ts [] = Inr scenes"
    by (simp add: build_scenes_def)
  from scenes_loop_ids[OF l] obtain new where
    n: "scenes = [] @ new" "map scene_text new = ts"
       "map scene_id new = map int [0..<0 + length ts]"
    by (elim exE conjE)
  from n(1) have e: "new = scenes" by simp
  from n(2) e have len: "length ts = length scenes" by auto
  from n(3) e len have "map scene_id scenes = map int [0..<length scenes]" by simp
  moreover from n(2) e Inr have "segment_scenes nlp text = Inr (map scene_text scenes)" by simp
  ultimately show ?thesis by (rule conjI)
qed

lemma sat_provider: "nlp_demo ''He sat.'' = Inr sat_doc"
  by (simp add: nlp_demo_def)

lemma ran_slept_entities: "extract_entities nlp_demo ''She ran. Later, she slept.'' = Inr []"
  using ran_slept_provider by (rule extract_entities_no_entity) (simp add: ran_slept_doc_def)

lemma sat_entities: "extract_entities nlp_demo ''He sat.'' = Inr []"
  using sat_provider by (rule extract_entities_no_entity) (simp add: sat_doc_def)

lemma ran_slept_actions:
  "detect_actions nlp_demo verb_alone ''She ran. Later, she slept.'' = Inr [''ran'', ''slept'']"
  by (simp add: detect_actions_def detect_actions_body_def ran_slept_provider
      ran_slept_doc_def tok_def is_action_verb_def verb_alone_def)

lemma sat_actions: "detect_actions nlp_demo verb_alone ''He sat.'' = Inr [''sat'']"
  by (simp add: detect_actions_def detect_actions_body_def sat_provider
      sat_doc_def tok_def is_action_verb_def verb_alone_def)

lemma joy_mood: "classify_mood always_joy t = Inr OTHER"
  by (simp add: classify_mood_def always_joy_def from_string_def EmotionType_call_def
      members_def lower_defs)


lemma day_scenes:
  "build_scenes nlp_demo verb_alone always_joy ''She ran. Later, she slept. He sat.''
     = Inr [ran_slept_scene, sat_scene]"
  by (simp add: build_scenes_def day_segments ran_slept_entities sat_entities
      ran_slept_actions sat_actions joy_mood ran_slept_scene_def sat_scene_def)

theorem build_scenes_ids_witness:
  "build_scenes nlp_demo verb_alone always_joy ''She ran. Later, she slept. He sat.''
     = Inr [ran_slept_scene, sat_scene]
   \<and> map scene_id [ran_slept_scene, sat_scene]
       = map int [0..<length [ran_slept_scene, sat_scene]]
   \<and> segment_scenes nlp_demo ''She ran. Later, she slept. He sat.''
       = Inr (map scene_text [ran_slept_scene, sat_scene])"
  using day_scenes build_scenes_ids[OF day_scenes]
  by (intro conjI) (assumption, erule conjunct1, erule conjunct2)

lemma day_scene_ids: "map scene_id [ran_slept_scene, sat_scene] = [0, 1]"
  by (simp add: ran_slept_scene_def sat_scene_def)

end
